theory Spec2Isabelle
  imports Main
begin

section \<open>Strings and values of the host language\<close>

text \<open>
  The analyzer is TypeScript. A string is a sequence of UTF-16 code units; every
  string operation and every regular expression of the source (none carries the
  \<^verbatim>\<open>u\<close> flag) works on code units. A code unit is modelled by its number,
  a string by the list of its code units. Every literal of the source lies in the Basic
  Multilingual Plane, so it is one code unit per character; the code points are given
  beside each constant.
\<close>

type_synonym cu = nat
type_synonym jsstring = "cu list"

text \<open>
  The values that flow through the \<^verbatim>\<open>any\<close>-typed fields of the source.
  Every number the program computes is integer valued (\<^verbatim>\<open>parseInt\<close>,
  \<^verbatim>\<open>Math.floor\<close>), so a number is an \<^typ>\<open>int\<close>; the model is exact
  below \<open>2^53\<close>, where the doubles of the source are.
\<close>

datatype jsval = Undefined | Null | Str jsstring | Num int | NaN | NegInfinity

text \<open>Truthiness, as \<^verbatim>\<open>||\<close>, \<^verbatim>\<open>&&\<close> and \<^verbatim>\<open>if\<close> test it.\<close>

fun truthy :: "jsval \<Rightarrow> bool" where
  "truthy Undefined = False"
| "truthy Null = False"
| "truthy (Str s) = (s \<noteq> [])"
| "truthy (Num n) = (n \<noteq> 0)"
| "truthy NaN = False"
| "truthy NegInfinity = True"

text \<open>\<^verbatim>\<open>a || b\<close>\<close>

definition js_or :: "jsval \<Rightarrow> jsval \<Rightarrow> jsval" where
  "js_or a b = (if truthy a then a else b)"

subsection \<open>Character classes\<close>

text \<open>
  \<^verbatim>\<open>\s\<close>: the WhiteSpace and LineTerminator code points of ECMAScript. The same
  set is what \<^verbatim>\<open>String.prototype.trim\<close> strips.
\<close>

definition is_space :: "cu \<Rightarrow> bool" where
  "is_space c \<longleftrightarrow>
     c = 0x9 \<or> c = 0xA \<or> c = 0xB \<or> c = 0xC \<or> c = 0xD \<or> c = 0x20 \<or> c = 0xA0 \<or>
     c = 0x1680 \<or> (0x2000 \<le> c \<and> c \<le> 0x200A) \<or> c = 0x2028 \<or> c = 0x2029 \<or>
     c = 0x202F \<or> c = 0x205F \<or> c = 0x3000 \<or> c = 0xFEFF"

text \<open>The line terminators: \<^verbatim>\<open>\n\<close>, \<^verbatim>\<open>\r\<close>, U+2028, U+2029.\<close>

definition is_line_terminator :: "cu \<Rightarrow> bool" where
  "is_line_terminator c \<longleftrightarrow> c = 0xA \<or> c = 0xD \<or> c = 0x2028 \<or> c = 0x2029"

text \<open>\<^verbatim>\<open>.\<close> (no \<^verbatim>\<open>s\<close> flag): any code unit but a line terminator.\<close>

definition dot :: "cu \<Rightarrow> bool" where
  "dot c \<longleftrightarrow> \<not> is_line_terminator c"

text \<open>\<^verbatim>\<open>\d\<close> and \<^verbatim>\<open>[0-9]\<close>\<close>

definition is_digit :: "cu \<Rightarrow> bool" where
  "is_digit c \<longleftrightarrow> 0x30 \<le> c \<and> c \<le> 0x39"

text \<open>A class \<^verbatim>\<open>[abc]\<close> listing its members, and its complement \<^verbatim>\<open>[^abc]\<close>.\<close>

definition one_of :: "cu list \<Rightarrow> cu \<Rightarrow> bool" where
  "one_of cs c \<longleftrightarrow> c \<in> set cs"

definition lit :: "cu \<Rightarrow> cu \<Rightarrow> bool" where
  "lit a c \<longleftrightarrow> c = a"

text \<open>
  The \<^verbatim>\<open>i\<close> flag compares canonicalised code units. Without the \<^verbatim>\<open>u\<close>
  flag the canonical form is the upper-case mapping, kept only when it is a single code
  unit and does not take a non-ASCII unit into ASCII. The literals of the patterns below
  are ASCII characters, kanji, kana and full-width punctuation: the only code units
  canonicalised onto one of them are the ASCII letters, so upper-casing \<^verbatim>\<open>a-z\<close>
  and leaving every other unit alone decides the same matches for these patterns on
  every input.
\<close>

definition canonicalize :: "cu \<Rightarrow> cu" where
  "canonicalize c = (if 0x61 \<le> c \<and> c \<le> 0x7A then c - 0x20 else c)"

definition lit_i :: "cu \<Rightarrow> cu \<Rightarrow> bool" where
  "lit_i a c \<longleftrightarrow> canonicalize c = canonicalize a"

subsection \<open>String methods\<close>

text \<open>\<^verbatim>\<open>s.trim()\<close>\<close>

definition trim :: "jsstring \<Rightarrow> jsstring" where
  "trim s = rev (dropWhile is_space (rev (dropWhile is_space s)))"

text \<open>
  \<^verbatim>\<open>s.split(sep)\<close> for a separator that is one code unit of a class: the string
  \<^verbatim>\<open>"\n"\<close> or the pattern \<^verbatim>\<open>/[...]/g\<close>. The pieces between the separators,
  empty pieces included; one piece when there is no separator.
\<close>

fun split_at :: "(cu \<Rightarrow> bool) \<Rightarrow> jsstring \<Rightarrow> jsstring \<Rightarrow> jsstring list" where
  "split_at p acc [] = [rev acc]"
| "split_at p acc (x # xs) =
     (if p x then rev acc # split_at p [] xs else split_at p (x # acc) xs)"

definition split :: "(cu \<Rightarrow> bool) \<Rightarrow> jsstring \<Rightarrow> jsstring list" where
  "split p s = split_at p [] s"

text \<open>\<^verbatim>\<open>s.padStart(2, "0")\<close>\<close>

definition padStart2 :: "jsstring \<Rightarrow> jsstring" where
  "padStart2 s = replicate (2 - length s) 0x30 @ s"

section \<open>Regular expressions\<close>

text \<open>
  The patterns of the source use literals, classes, \<^verbatim>\<open>.\<close>, \<^verbatim>\<open>\s\<close>,
  \<^verbatim>\<open>\d\<close>, sequence, alternation, capturing and non-capturing groups,
  \<^verbatim>\<open>$\<close>, and the quantifiers \<^verbatim>\<open>* + ? {n} {n,m} *? +?\<close>, which they
  apply to single-unit atoms only. \<open>Rep p mn mx greedy\<close> is such a quantified atom;
  \<open>Eol m\<close> is \<^verbatim>\<open>$\<close> with the \<^verbatim>\<open>m\<close> flag \<open>m\<close>.
\<close>

datatype regex =
    Eps
  | Chr "cu \<Rightarrow> bool"
  | Rep "cu \<Rightarrow> bool" nat "nat option" bool
  | Seq regex regex
  | Alt regex regex
  | Grp nat regex
  | Eol bool

type_synonym captures = "nat \<Rightarrow> jsstring option"

text \<open>
  The ways a quantified atom can take a prefix of the input, with between \<open>mn\<close> and
  \<open>mx\<close> units, shortest first: the order in which a lazy quantifier tries them. A greedy
  one tries them in the reverse order.
\<close>

fun rep_lazy :: "(cu \<Rightarrow> bool) \<Rightarrow> nat \<Rightarrow> nat option \<Rightarrow> jsstring \<Rightarrow> (jsstring \<times> jsstring) list" where
  "rep_lazy p mn mx [] = (if mn = 0 then [([], [])] else [])"
| "rep_lazy p mn mx (x # xs) =
     (if mn = 0 then [([], x # xs)] else []) @
     (if p x \<and> mx \<noteq> Some 0
      then map (\<lambda>(w, r). (x # w, r)) (rep_lazy p (mn - 1) (map_option (\<lambda>m. m - 1) mx) xs)
      else [])"

definition rep_splits :: "(cu \<Rightarrow> bool) \<Rightarrow> nat \<Rightarrow> nat option \<Rightarrow> bool \<Rightarrow> jsstring \<Rightarrow> (jsstring \<times> jsstring) list" where
  "rep_splits p mn mx greedy s = (if greedy then rev (rep_lazy p mn mx s) else rep_lazy p mn mx s)"

text \<open>
  The backtracking matcher. \<open>run r s c\<close> lists, in the order a backtracking engine
  tries them, every way for \<open>r\<close> to match at the start of \<open>s\<close> with the captures
  \<open>c\<close> so far: the units matched, the input left, the captures after. The engine's answer
  is the first.
\<close>

fun run :: "regex \<Rightarrow> jsstring \<Rightarrow> captures \<Rightarrow> (jsstring \<times> jsstring \<times> captures) list" where
  "run Eps s c = [([], s, c)]"
| "run (Chr p) s c = (case s of [] \<Rightarrow> [] | x # xs \<Rightarrow> if p x then [([x], xs, c)] else [])"
| "run (Rep p mn mx greedy) s c = map (\<lambda>(w, r). (w, r, c)) (rep_splits p mn mx greedy s)"
| "run (Seq a b) s c =
     concat (map (\<lambda>(w1, s1, c1). map (\<lambda>(w2, s2, c2). (w1 @ w2, s2, c2)) (run b s1 c1)) (run a s c))"
| "run (Alt a b) s c = run a s c @ run b s c"
| "run (Grp k r) s c = map (\<lambda>(w, s', c'). (w, s', c'(k \<mapsto> w))) (run r s c)"
| "run (Eol m) s c =
     (case s of [] \<Rightarrow> [([], s, c)]
      | x # _ \<Rightarrow> if m \<and> is_line_terminator x then [([], s, c)] else [])"

text \<open>The first match starting at the front of \<open>s\<close>, with no capture set before.\<close>

definition match_here :: "regex \<Rightarrow> jsstring \<Rightarrow> (jsstring \<times> jsstring \<times> captures) option" where
  "match_here r s = (case run r s Map.empty of [] \<Rightarrow> None | m # _ \<Rightarrow> Some m)"

text \<open>\<^verbatim>\<open>RegExp.prototype.exec\<close>: the leftmost start at which the pattern matches.\<close>

fun exec :: "regex \<Rightarrow> jsstring \<Rightarrow> (jsstring \<times> jsstring \<times> captures) option" where
  "exec r [] = match_here r []"
| "exec r (x # xs) = (case match_here r (x # xs) of None \<Rightarrow> exec r xs | Some m \<Rightarrow> Some m)"

text \<open>
  \<^verbatim>\<open>text.match(re)\<close> for a pattern without the \<^verbatim>\<open>g\<close> flag: \<^verbatim>\<open>null\<close>, or
  the match array, index 0 the whole match and index \<open>k\<close> the \<open>k\<close>-th group
  (\<^verbatim>\<open>undefined\<close>, here \<open>None\<close>, for a group that took no part).
\<close>

definition js_match :: "regex \<Rightarrow> jsstring \<Rightarrow> captures option" where
  "js_match r t = map_option (\<lambda>(w, s, c). c(0 \<mapsto> w)) (exec r t)"

text \<open>\<^verbatim>\<open>re.test(text)\<close>\<close>

definition js_test :: "regex \<Rightarrow> jsstring \<Rightarrow> bool" where
  "js_test r t \<longleftrightarrow> exec r t \<noteq> None"

text \<open>
  \<^verbatim>\<open>text.match(re)\<close> for a pattern with the \<^verbatim>\<open>g\<close> flag: the matched
  substrings from left to right, each search starting where the last match ended (one
  unit further after an empty match). The empty list is the \<^verbatim>\<open>null\<close> of the
  source.
\<close>

function match_all :: "regex \<Rightarrow> jsstring \<Rightarrow> jsstring list" where
  "match_all r t =
     (case match_here r t of
        None \<Rightarrow> (case t of [] \<Rightarrow> [] | _ # xs \<Rightarrow> match_all r xs)
      | Some (w, rest, c) \<Rightarrow>
          if length rest < length t then w # match_all r rest
          else (case t of [] \<Rightarrow> [w] | _ # xs \<Rightarrow> w # match_all r xs))"
  by pat_completeness auto
termination
  by (relation "measure (\<lambda>(r, t). length t)") auto

declare match_all.simps [simp del]

text \<open>
  \<^verbatim>\<open>text.replace(re, by)\<close> for a pattern with the \<^verbatim>\<open>g\<close> flag and a
  replacement string without \<^verbatim>\<open>$\<close>: every match, found as by \<open>match_all\<close>, is
  replaced.
\<close>

function replace_all :: "regex \<Rightarrow> jsstring \<Rightarrow> jsstring \<Rightarrow> jsstring" where
  "replace_all r by t =
     (case match_here r t of
        None \<Rightarrow> (case t of [] \<Rightarrow> [] | x # xs \<Rightarrow> x # replace_all r by xs)
      | Some (w, rest, c) \<Rightarrow>
          if length rest < length t then by @ replace_all r by rest
          else (case t of [] \<Rightarrow> by | x # xs \<Rightarrow> by @ x # replace_all r by xs))"
  by pat_completeness auto
termination
  by (relation "measure (\<lambda>(r, by, t). length t)") auto

declare replace_all.simps [simp del]

text \<open>Writing patterns: a sequence, an alternation, a literal string.\<close>

fun cat :: "regex list \<Rightarrow> regex" where
  "cat [] = Eps"
| "cat [r] = r"
| "cat (r # rs) = Seq r (cat rs)"

fun alts :: "regex \<Rightarrow> regex list \<Rightarrow> regex" where
  "alts r [] = r"
| "alts r (q # qs) = Alt r (alts q qs)"

definition str :: "jsstring \<Rightarrow> regex" where
  "str s = cat (map (\<lambda>a. Chr (lit a)) s)"

definition str_i :: "jsstring \<Rightarrow> regex" where
  "str_i s = cat (map (\<lambda>a. Chr (lit_i a)) s)"

text \<open>The quantifiers.\<close>

abbreviation rstar :: "(cu \<Rightarrow> bool) \<Rightarrow> regex" where "rstar p \<equiv> Rep p 0 None True"
abbreviation rplus :: "(cu \<Rightarrow> bool) \<Rightarrow> regex" where "rplus p \<equiv> Rep p 1 None True"
abbreviation ropt :: "(cu \<Rightarrow> bool) \<Rightarrow> regex" where "ropt p \<equiv> Rep p 0 (Some 1) True"
abbreviation rtimes :: "(cu \<Rightarrow> bool) \<Rightarrow> nat \<Rightarrow> nat \<Rightarrow> regex" where "rtimes p m n \<equiv> Rep p m (Some n) True"
abbreviation rstar_lazy :: "(cu \<Rightarrow> bool) \<Rightarrow> regex" where "rstar_lazy p \<equiv> Rep p 0 None False"
abbreviation rplus_lazy :: "(cu \<Rightarrow> bool) \<Rightarrow> regex" where "rplus_lazy p \<equiv> Rep p 1 None False"

section \<open>Numbers\<close>

text \<open>
  \<^verbatim>\<open>parseInt(s, 10)\<close>: leading white space is skipped, then an optional sign, then
  the longest run of decimal digits is read; \<^verbatim>\<open>NaN\<close> when there is no digit.
\<close>

definition digits_value :: "jsstring \<Rightarrow> int" where
  "digits_value ds = foldl (\<lambda>a d. 10 * a + int (d - 0x30)) 0 ds"

definition parseInt :: "jsstring \<Rightarrow> jsval" where
  "parseInt s =
     (let t = dropWhile is_space s;
          neg = (case t of [] \<Rightarrow> False | c # _ \<Rightarrow> c = 0x2D);
          u = (case t of [] \<Rightarrow> [] | c # r \<Rightarrow> if c = 0x2D \<or> c = 0x2B then r else t);
          ds = takeWhile is_digit u
      in if ds = [] then NaN else Num (if neg then - digits_value ds else digits_value ds))"

text \<open>
  \<^verbatim>\<open>Math.max(...xs)\<close> on the values the program passes to it (numbers or
  \<^verbatim>\<open>NaN\<close>): \<^verbatim>\<open>-Infinity\<close> for no argument, \<^verbatim>\<open>NaN\<close> as soon as one
  argument is \<^verbatim>\<open>NaN\<close>.
\<close>

fun max2 :: "jsval \<Rightarrow> jsval \<Rightarrow> jsval" where
  "max2 (Num a) (Num b) = Num (max a b)"
| "max2 NegInfinity (Num b) = Num b"
| "max2 (Num a) NegInfinity = Num a"
| "max2 NegInfinity NegInfinity = NegInfinity"
| "max2 _ _ = NaN"

definition math_max :: "jsval list \<Rightarrow> jsval" where
  "math_max xs = foldl max2 NegInfinity xs"

text \<open>The decimal digits of a number, as a template string prints it.\<close>

fun show_nat :: "nat \<Rightarrow> jsstring" where
  "show_nat n = (if n < 10 then [0x30 + n] else show_nat (n div 10) @ [0x30 + n mod 10])"

declare show_nat.simps [simp del]

section \<open>The rule tables\<close>

text \<open>
  \<^verbatim>\<open>interface PromptTemplate\<close>: the field's name, its patterns in order, an
  optional processor of the captured value and an optional fallback on the whole text.
\<close>

record PromptTemplate =
  fieldName :: jsstring
  patterns :: "regex list"
  processor :: "(jsstring \<Rightarrow> jsval) option"
  fallback :: "(jsstring \<Rightarrow> jsval) option"

text \<open>A string of ASCII characters as code units.\<close>

definition ascii :: "string \<Rightarrow> jsstring" where
  "ascii s = map of_char s"

text \<open>The classes the patterns share.\<close>

definition sep_class :: "cu \<Rightarrow> bool" where
  \<comment> \<open>\<^verbatim>\<open>[\s::]\<close>, the second colon the full-width U+FF1A\<close>
  "sep_class c \<longleftrightarrow> is_space c \<or> one_of [0x3A, 0xFF1A] c"

definition yen_class :: "cu \<Rightarrow> bool" where
  \<comment> \<open>\<^verbatim>\<open>[\Y\\]\<close>: the yen sign U+00A5 and the backslash\<close>
  "yen_class c \<longleftrightarrow> one_of [0xA5, 0x5C] c"

definition not_yen_digit :: "cu \<Rightarrow> bool" where
  \<comment> \<open>\<^verbatim>\<open>[^\\Y\d]\<close>\<close>
  "not_yen_digit c \<longleftrightarrow> \<not> (one_of [0x5C, 0xA5] c \<or> is_digit c)"

definition digit_or_comma :: "cu \<Rightarrow> bool" where
  \<comment> \<open>\<^verbatim>\<open>[\d,]\<close>\<close>
  "digit_or_comma c \<longleftrightarrow> is_digit c \<or> c = 0x2C"

definition space_or_nl :: "cu \<Rightarrow> bool" where
  \<comment> \<open>\<^verbatim>\<open>[\s\n]\<close>\<close>
  "space_or_nl c \<longleftrightarrow> is_space c \<or> c = 0xA"

text \<open>\<^verbatim>\<open>\d[\d,]+\<close>, the shape of every number the patterns capture.\<close>

definition number_token :: regex where
  "number_token = Seq (Chr is_digit) (rplus digit_or_comma)"

text \<open>\<^verbatim>\<open>(?:\s*$|\s*U+5186)\<close>: the end of the input (of the line, with the
  \<^verbatim>\<open>m\<close> flag) or the yen word U+5186 (en).\<close>

definition end_or_yen :: "bool \<Rightarrow> regex" where
  "end_or_yen m = Alt (Seq (rstar is_space) (Eol m)) (Seq (rstar is_space) (Chr (lit_i 0x5186)))"

subsection \<open>storeName\<close>

definition storeName_patterns :: "regex list" where
  \<open>storeName_patterns =
   [ \<comment> \<open>\<^verbatim>\<open>/U+5E97 U+540D[:|U+FF1A]\s*(.+)/i\<close> (tenmei, shop name)\<close>
     cat [str_i [0x5E97, 0x540D], Chr (one_of [0x3A, 0x7C, 0xFF1A]), rstar is_space,
          Grp 1 (rplus dot)],
     \<comment> \<open>\<^verbatim>\<open>/(.+)\s*\n.*U+9818 U+53CE/i\<close> (ryoshu, receipt)\<close>
     cat [Grp 1 (rplus dot), rstar is_space, Chr (lit_i 0xA), rstar dot, str_i [0x9818, 0x53CE]],
     \<comment> \<open>\<^verbatim>\<open>/(.{2,20})\s*\n.*[0-9]{3}-[0-9]{4}/i\<close>\<close>
     cat [Grp 1 (rtimes dot 2 20), rstar is_space, Chr (lit_i 0xA), rstar dot,
          rtimes is_digit 3 3, Chr (lit_i 0x2D), rtimes is_digit 4 4],
     \<comment> \<open>\<^verbatim>\<open>/U+5546 U+53F7 U+540D U+79F0[:U+FF1A\s]*(.*?)[\s\n]/i\<close> (shogo meisho, trade name)\<close>
     cat [str_i [0x5546, 0x53F7, 0x540D, 0x79F0], rstar sep_class, Grp 1 (rstar_lazy dot),
          Chr space_or_nl],
     \<comment> \<open>\<^verbatim>\<open>/U+5C4B U+53F7[U+FF1A:]\s*(.*?)[\s\n]/i\<close> (yago, business name)\<close>
     cat [str_i [0x5C4B, 0x53F7], Chr (one_of [0xFF1A, 0x3A]), rstar is_space,
          Grp 1 (rstar_lazy dot), Chr space_or_nl] ]\<close>

text \<open>The sentinel U+4E0D U+660E U+306A U+5E97 U+8217 (fumei na tenpo, unknown store).\<close>

definition unknown_store :: jsstring where
  "unknown_store = [0x4E0D, 0x660E, 0x306A, 0x5E97, 0x8217]"

text \<open>The fallback: the first line that is not blank, trimmed.\<close>

definition storeName_fallback :: "jsstring \<Rightarrow> jsval" where
  "storeName_fallback text =
     (let lines = filter (\<lambda>line. length (trim line) > 0) (split (lit 0xA) text)
      in case lines of [] \<Rightarrow> Str unknown_store | l # _ \<Rightarrow> Str (trim l))"

subsection \<open>date\<close>

definition date_patterns :: "regex list" where
  \<open>date_patterns =
   [ \<comment> \<open>\<^verbatim>\<open>/U+65E5 U+4ED8[U+FF1A:]\s*(\d{4})[\/\-U+5E74](\d{1,2})[\/\-U+6708](\d{1,2})/i\<close>\<close>
     cat [str_i [0x65E5, 0x4ED8], Chr (one_of [0xFF1A, 0x3A]), rstar is_space,
          Grp 1 (rtimes is_digit 4 4), Chr (one_of [0x2F, 0x2D, 0x5E74]),
          Grp 2 (rtimes is_digit 1 2), Chr (one_of [0x2F, 0x2D, 0x6708]),
          Grp 3 (rtimes is_digit 1 2)],
     \<comment> \<open>\<^verbatim>\<open>/(\d{4})[U+5E74\/\.\-](\d{1,2})[U+6708\/\.\-](\d{1,2})[U+65E5]?/i\<close>\<close>
     cat [Grp 1 (rtimes is_digit 4 4), Chr (one_of [0x5E74, 0x2F, 0x2E, 0x2D]),
          Grp 2 (rtimes is_digit 1 2), Chr (one_of [0x6708, 0x2F, 0x2E, 0x2D]),
          Grp 3 (rtimes is_digit 1 2), ropt (one_of [0x65E5])],
     \<comment> \<open>\<^verbatim>\<open>/(\d{2})[\/\.](\d{1,2})[\/\.](\d{1,2})/i\<close>\<close>
     cat [Grp 1 (rtimes is_digit 2 2), Chr (one_of [0x2F, 0x2E]),
          Grp 2 (rtimes is_digit 1 2), Chr (one_of [0x2F, 0x2E]),
          Grp 3 (rtimes is_digit 1 2)],
     \<comment> \<open>\<^verbatim>\<open>/(\d{1,2})U+6708(\d{1,2})U+65E5/i\<close>\<close>
     cat [Grp 1 (rtimes is_digit 1 2), Chr (lit_i 0x6708), Grp 2 (rtimes is_digit 1 2),
          Chr (lit_i 0x65E5)] ]\<close>

text \<open>
  The processor splits the value it is given at the separators
  \<^verbatim>\<open>[U+5E74 U+6708 U+65E5 \/ \. \-]\<close> (nen, gatsu, nichi: year, month, day), drops
  the blank pieces, and builds the date from three pieces or, with the current year, from
  two; otherwise it returns \<^verbatim>\<open>null\<close>. The current year is
  \<^verbatim>\<open>new Date().getFullYear()\<close>, a parameter here.
\<close>

definition date_processor :: "nat \<Rightarrow> jsstring \<Rightarrow> jsval" where
  "date_processor currentYear match =
     (let parts = filter (\<lambda>p. length (trim p) > 0)
                    (split (one_of [0x5E74, 0x6708, 0x65E5, 0x2F, 0x2E, 0x2D]) match)
      in case parts of
           y # m # d # _ \<Rightarrow>
             (let year = (if length y = 2 then ascii ''20'' @ y else y)
              in Str (year @ ascii ''-'' @ padStart2 m @ ascii ''-'' @ padStart2 d))
         | [m, d] \<Rightarrow> Str (show_nat currentYear @ ascii ''-'' @ padStart2 m @ ascii ''-'' @ padStart2 d)
         | _ \<Rightarrow> Null)"

subsection \<open>amount\<close>

definition amount_patterns :: "regex list" where
  \<open>amount_patterns =
   [ \<comment> \<open>\<^verbatim>\<open>/U+5408 U+8A08[U+91D1 U+984D]*[\s:U+FF1A]*[\Y\\]?(\d[\d,]+)/i\<close> (gokei, total)\<close>
     cat [str_i [0x5408, 0x8A08], rstar (one_of [0x91D1, 0x984D]), rstar sep_class,
          ropt yen_class, Grp 1 number_token],
     \<comment> \<open>\<^verbatim>\<open>/(?:U+5C0F U+8A08|U+304A U+8CB7 U+4E0A U+3052|U+8A08)[^\\Y\d]*[\s:U+FF1A]*[\Y\\]?(\d[\d,]+)/i\<close>\<close>
     cat [alts (str_i [0x5C0F, 0x8A08]) [str_i [0x304A, 0x8CB7, 0x4E0A, 0x3052], str_i [0x8A08]],
          rstar not_yen_digit, rstar sep_class, ropt yen_class, Grp 1 number_token],
     \<comment> \<open>\<^verbatim>\<open>/(?:total|U+91D1 U+984D)[^\\Y\d]*[\s:U+FF1A]*[\Y\\]?(\d[\d,]+)/i\<close>\<close>
     cat [alts (str_i (ascii ''total'')) [str_i [0x91D1, 0x984D]],
          rstar not_yen_digit, rstar sep_class, ropt yen_class, Grp 1 number_token],
     \<comment> \<open>\<^verbatim>\<open>/(?:U+304A U+4F1A U+8A08|U+3054 U+8ACB U+6C42 U+984D|U+8ACB U+6C42 U+91D1 U+984D)[\s:U+FF1A]*[\Y\\]?(\d[\d,]+)/i\<close>\<close>
     cat [alts (str_i [0x304A, 0x4F1A, 0x8A08])
            [str_i [0x3054, 0x8ACB, 0x6C42, 0x984D], str_i [0x8ACB, 0x6C42, 0x91D1, 0x984D]],
          rstar sep_class, ropt yen_class, Grp 1 number_token],
     \<comment> \<open>\<^verbatim>\<open>/(?:U+FFE5|U+00A5)[\s]*(\d[\d,]+)(?:\s*$|\s*U+5186)/im\<close>\<close>
     cat [Alt (Chr (lit_i 0xFFE5)) (Chr (lit_i 0xA5)), rstar is_space, Grp 1 number_token,
          end_or_yen True] ]\<close>

text \<open>\<^verbatim>\<open>parseInt(value.replace(/,/g, ""), 10)\<close>\<close>

definition number_processor :: "jsstring \<Rightarrow> jsval" where
  "number_processor v = parseInt (replace_all (Chr (lit 0x2C)) [] v)"

text \<open>\<^verbatim>\<open>/(?:U+FFE5|U+00A5)[\s]*(\d[\d,]+)/g\<close>, the scan of the fallback.\<close>

definition currency_token :: regex where
  "currency_token =
     cat [Alt (Chr (lit 0xFFE5)) (Chr (lit 0xA5)), rstar is_space, Grp 1 number_token]"

text \<open>
  The fallback: every currency token of the text, stripped of all but digits and
  commas, then of the commas, and parsed; the greatest, or 0 when there is none.
\<close>

definition amount_of_token :: "jsstring \<Rightarrow> jsval" where
  "amount_of_token v =
     parseInt (replace_all (Chr (lit 0x2C)) []
                (replace_all (Chr (\<lambda>c. \<not> digit_or_comma c)) [] v))"

definition amount_fallback :: "jsstring \<Rightarrow> jsval" where
  "amount_fallback text =
     (let currencyValues = match_all currency_token text
      in if length currencyValues > 0 then math_max (map amount_of_token currencyValues)
         else Num 0)"

subsection \<open>taxAmount\<close>

definition taxAmount_patterns :: "regex list" where
  \<open>taxAmount_patterns =
   [ \<comment> \<open>\<^verbatim>\<open>/U+6D88 U+8CBB U+7A0E[U+984D]?[\s:U+FF1A]*[\Y\\]?(\d[\d,]+)/i\<close> (shohizei, consumption tax)\<close>
     cat [str_i [0x6D88, 0x8CBB, 0x7A0E], ropt (one_of [0x984D]), rstar sep_class,
          ropt yen_class, Grp 1 number_token],
     \<comment> \<open>\<^verbatim>\<open>/U+5185 U+7A0E[\s:U+FF1A]*[\Y\\]?(\d[\d,]+)/i\<close> (uchizei, tax included)\<close>
     cat [str_i [0x5185, 0x7A0E], rstar sep_class, ropt yen_class, Grp 1 number_token],
     \<comment> \<open>\<^verbatim>\<open>/U+5916 U+7A0E[\s:U+FF1A]*[\Y\\]?(\d[\d,]+)/i\<close> (sotozei, tax excluded)\<close>
     cat [str_i [0x5916, 0x7A0E], rstar sep_class, ropt yen_class, Grp 1 number_token],
     \<comment> \<open>\<^verbatim>\<open>/U+7A0E U+984D[\s:U+FF1A]*[\Y\\]?(\d[\d,]+)/i\<close> (zeigaku, tax amount)\<close>
     cat [str_i [0x7A0E, 0x984D], rstar sep_class, ropt yen_class, Grp 1 number_token],
     \<comment> \<open>\<^verbatim>\<open>/U+7A0E[\s:U+FF1A]*(\d[\d,]+)(?:\s*$|\s*U+5186)/i\<close> (zei, tax)\<close>
     cat [str_i [0x7A0E], rstar sep_class, Grp 1 number_token, end_or_yen False] ]\<close>

subsection \<open>paymentMethod\<close>

text \<open>
  The payment words of the second pattern, in order: U+30AF U+30EC U+30B8 U+30C3 U+30C8
  (kurejitto, credit), U+30AB U+30FC U+30C9 (kado, card), U+30C7 U+30D3 U+30C3 U+30C8
  (debitto), U+73FE U+91D1 (genkin, cash), U+96FB U+5B50 U+30DE U+30CD U+30FC (denshi mane),
  QR U+30B3 U+30FC U+30C9, PayPay, U+30E1 U+30EB U+30DA U+30A4 (merupei), U+4EA4 U+901A U+7CFB
  (kotsukei), Suica, PASMO.
\<close>

definition credit_word :: jsstring where
  "credit_word = [0x30AF, 0x30EC, 0x30B8, 0x30C3, 0x30C8]"

definition paymentMethod_patterns :: "regex list" where
  \<open>paymentMethod_patterns =
   [ \<comment> \<open>\<^verbatim>\<open>/(?:U+652F U+6255[U+65B9 U+6CD5 U+3044]|U+304A U+652F U+6255 U+3044 U+65B9 U+6CD5)[\s:U+FF1A]*(.+?)(?:[\s\n]|$)/i\<close>\<close>
     cat [Alt (Seq (str_i [0x652F, 0x6255]) (Chr (one_of [0x65B9, 0x6CD5, 0x3044])))
              (str_i [0x304A, 0x652F, 0x6255, 0x3044, 0x65B9, 0x6CD5]),
          rstar sep_class, Grp 1 (rplus_lazy dot), Alt (Chr space_or_nl) (Eol False)],
     \<comment> \<open>the alternation of the payment words, one capturing group\<close>
     Grp 1 (alts (str_i credit_word)
       [str_i [0x30AB, 0x30FC, 0x30C9], str_i [0x30C7, 0x30D3, 0x30C3, 0x30C8],
        str_i [0x73FE, 0x91D1], str_i [0x96FB, 0x5B50, 0x30DE, 0x30CD, 0x30FC],
        str_i (ascii ''QR'' @ [0x30B3, 0x30FC, 0x30C9]), str_i (ascii ''PayPay''),
        str_i [0x30E1, 0x30EB, 0x30DA, 0x30A4], str_i [0x4EA4, 0x901A, 0x7CFB],
        str_i (ascii ''Suica''), str_i (ascii ''PASMO'')]) ]\<close>

subsection \<open>The table\<close>

text \<open>\<^verbatim>\<open>japaneseReceiptPrompts\<close>, in the order of the source.\<close>

definition storeName_prompt :: PromptTemplate where
  "storeName_prompt = \<lparr> fieldName = ascii ''storeName'', patterns = storeName_patterns,
     processor = None, fallback = Some storeName_fallback \<rparr>"

definition date_prompt :: "nat \<Rightarrow> PromptTemplate" where
  "date_prompt currentYear = \<lparr> fieldName = ascii ''date'', patterns = date_patterns,
     processor = Some (date_processor currentYear), fallback = None \<rparr>"

definition amount_prompt :: PromptTemplate where
  "amount_prompt = \<lparr> fieldName = ascii ''amount'', patterns = amount_patterns,
     processor = Some number_processor, fallback = Some amount_fallback \<rparr>"

definition taxAmount_prompt :: PromptTemplate where
  "taxAmount_prompt = \<lparr> fieldName = ascii ''taxAmount'', patterns = taxAmount_patterns,
     processor = Some number_processor, fallback = None \<rparr>"

definition paymentMethod_prompt :: PromptTemplate where
  "paymentMethod_prompt = \<lparr> fieldName = ascii ''paymentMethod'',
     patterns = paymentMethod_patterns, processor = None, fallback = None \<rparr>"

definition japaneseReceiptPrompts :: "nat \<Rightarrow> PromptTemplate list" where
  "japaneseReceiptPrompts currentYear =
     [storeName_prompt, date_prompt currentYear, amount_prompt, taxAmount_prompt,
      paymentMethod_prompt]"

section \<open>The analyzer\<close>

subsection \<open>postprocessText\<close>

text \<open>
  The thirteen replacements of the source, in its order: \<^verbatim>\<open>/\s+/g\<close> by one space,
  the full-width digits U+FF10 .. U+FF19 by the ASCII digits, the full-width comma U+FF0C
  and full stop U+FF0E by the ASCII ones, and \<^verbatim>\<open>/\n\s*\n/g\<close> by one line feed.
\<close>

definition postprocessText :: "jsstring \<Rightarrow> jsstring" where
  "postprocessText text =
     replace_all (cat [Chr (lit 0xA), rstar is_space, Chr (lit 0xA)]) [0xA]
       (replace_all (Chr (lit 0xFF0E)) (ascii ''.'')
       (replace_all (Chr (lit 0xFF0C)) (ascii '','')
       (replace_all (Chr (lit 0xFF19)) (ascii ''9'')
       (replace_all (Chr (lit 0xFF18)) (ascii ''8'')
       (replace_all (Chr (lit 0xFF17)) (ascii ''7'')
       (replace_all (Chr (lit 0xFF16)) (ascii ''6'')
       (replace_all (Chr (lit 0xFF15)) (ascii ''5'')
       (replace_all (Chr (lit 0xFF14)) (ascii ''4'')
       (replace_all (Chr (lit 0xFF13)) (ascii ''3'')
       (replace_all (Chr (lit 0xFF12)) (ascii ''2'')
       (replace_all (Chr (lit 0xFF11)) (ascii ''1'')
       (replace_all (Chr (lit 0xFF10)) (ascii ''0'')
       (replace_all (rplus is_space) (ascii '' '') text)))))))))))))"

subsection \<open>extractFieldWithPrompt\<close>

text \<open>
  The loop over the patterns. It returns from the function at the first pattern whose
  match array is not \<^verbatim>\<open>null\<close> and whose first group is truthy (defined and not
  empty), with the trimmed group, processed when the field has a processor. \<open>None\<close>
  is the end of the loop without a return.
\<close>

fun extract_loop :: "PromptTemplate \<Rightarrow> regex list \<Rightarrow> jsstring \<Rightarrow> jsval option" where
  "extract_loop prompt [] text = None"
| "extract_loop prompt (pattern # rest) text =
     (case js_match pattern text of
        None \<Rightarrow> extract_loop prompt rest text
      | Some match \<Rightarrow>
          (case match 1 of
             None \<Rightarrow> extract_loop prompt rest text
           | Some g \<Rightarrow>
               if g \<noteq> [] then
                 (let value = trim g
                  in Some (case processor prompt of None \<Rightarrow> Str value | Some f \<Rightarrow> f value))
               else extract_loop prompt rest text))"

definition extractFieldWithPrompt :: "jsstring \<Rightarrow> PromptTemplate \<Rightarrow> jsval" where
  "extractFieldWithPrompt text prompt =
     (case extract_loop prompt (patterns prompt) text of
        Some v \<Rightarrow> v
      | None \<Rightarrow> (case fallback prompt of Some f \<Rightarrow> f text | None \<Rightarrow> Undefined))"

subsection \<open>extractItems\<close>

record ReceiptItem =
  name :: jsstring
  quantity :: jsval
  unitPrice :: jsval
  totalPrice :: jsval

text \<open>
  What the source can throw: a \<^verbatim>\<open>TypeError\<close> for a method called on
  \<^verbatim>\<open>undefined\<close>, the error of \<^verbatim>\<open>parseReceiptImage\<close> when the OCR result
  has no annotation, and whatever reading the image or the OCR service throws.
\<close>

datatype error = TypeError | TextNotDetected | CollaboratorError

text \<open>\<^verbatim>\<open>/(.+?)\s+(\d+)\s+[\Y\\]?(\d[\d,]+)\s+[\Y\\]?(\d[\d,]+)/\<close>\<close>

definition itemPattern :: regex where
  "itemPattern =
     cat [Grp 1 (rplus_lazy dot), rplus is_space, Grp 2 (rplus is_digit), rplus is_space,
          ropt yen_class, Grp 3 number_token, rplus is_space,
          ropt yen_class, Grp 4 number_token]"

text \<open>
  The item built from a match array. \<^verbatim>\<open>match[1].trim()\<close> and
  \<^verbatim>\<open>match[k].replace(...)\<close> throw on a group that is \<^verbatim>\<open>undefined\<close>;
  \<^verbatim>\<open>parseInt(undefined, 10)\<close> is \<^verbatim>\<open>NaN\<close>.
\<close>

definition item_of_match :: "captures \<Rightarrow> error + ReceiptItem" where
  "item_of_match match =
     (case match 1 of None \<Rightarrow> Inl TypeError | Some g1 \<Rightarrow>
      case match 3 of None \<Rightarrow> Inl TypeError | Some g3 \<Rightarrow>
      case match 4 of None \<Rightarrow> Inl TypeError | Some g4 \<Rightarrow>
        Inr \<lparr> name = trim g1,
              quantity = (case match 2 of None \<Rightarrow> NaN | Some g2 \<Rightarrow> parseInt g2),
              unitPrice = parseInt (replace_all (Chr (lit 0x2C)) [] g3),
              totalPrice = parseInt (replace_all (Chr (lit 0x2C)) [] g4) \<rparr>)"

fun items_loop :: "jsstring list \<Rightarrow> error + ReceiptItem list" where
  "items_loop [] = Inr []"
| "items_loop (line # lines) =
     (case js_match itemPattern line of
        None \<Rightarrow> items_loop lines
      | Some match \<Rightarrow>
          (case item_of_match match of
             Inl e \<Rightarrow> Inl e
           | Inr item \<Rightarrow>
               (case items_loop lines of Inl e \<Rightarrow> Inl e | Inr its \<Rightarrow> Inr (item # its))))"

definition extractItems :: "jsstring \<Rightarrow> error + ReceiptItem list" where
  "extractItems text = items_loop (split (lit 0xA) text)"

subsection \<open>categorizeStore\<close>

text \<open>
  The labels: U+98F2 U+98DF (inshoku, dining), U+98DF U+6599 U+54C1 (shokuryohin, groceries),
  U+4EA4 U+901A U+8CBB (kotsuhi, transportation), U+5BBF U+6CCA (shukuhaku, lodging),
  U+6587 U+5177 U+30FB U+66F8 U+7C4D (bungu, shoseki: stationery and books),
  U+533B U+7642 U+30FB U+5065 U+5EB7 (iryo, kenko: healthcare), U+305D U+306E U+4ED6
  (sonota, other).
\<close>

definition cat_dining :: jsstring where "cat_dining = [0x98F2, 0x98DF]"
definition cat_groceries :: jsstring where "cat_groceries = [0x98DF, 0x6599, 0x54C1]"
definition cat_transport :: jsstring where "cat_transport = [0x4EA4, 0x901A, 0x8CBB]"
definition cat_lodging :: jsstring where "cat_lodging = [0x5BBF, 0x6CCA]"
definition cat_stationery :: jsstring where "cat_stationery = [0x6587, 0x5177, 0x30FB, 0x66F8, 0x7C4D]"
definition cat_health :: jsstring where "cat_health = [0x533B, 0x7642, 0x30FB, 0x5065, 0x5EB7]"
definition cat_other :: jsstring where "cat_other = [0x305D, 0x306E, 0x4ED6]"

text \<open>The keyword patterns, none with a flag; the kana and kanji words by code point.\<close>

definition dining_words :: regex where
  \<comment> \<open>\<^verbatim>\<open>/restaurant|cafe|coffee|...|...|...|...|.../\<close>\<close>
  "dining_words = alts (str (ascii ''restaurant''))
     [str (ascii ''cafe''), str (ascii ''coffee''), str [0x30EC, 0x30B9, 0x30C8, 0x30E9, 0x30F3],
      str [0x30AB, 0x30D5, 0x30A7], str [0x98DF, 0x5802], str [0x5C45, 0x9152, 0x5C4B],
      str [0x30C0, 0x30A4, 0x30CB, 0x30F3, 0x30B0]]"

definition grocery_words :: regex where
  \<comment> \<open>\<^verbatim>\<open>/market|super|...|...|...|.../\<close>\<close>
  "grocery_words = alts (str (ascii ''market''))
     [str (ascii ''super''), str [0x30B3, 0x30F3, 0x30D3, 0x30CB], str [0x30DE, 0x30FC, 0x30C8],
      str [0x30B9, 0x30FC, 0x30D1, 0x30FC], str [0x30B9, 0x30C8, 0x30A2]]"

definition transport_words :: regex where
  \<comment> \<open>\<^verbatim>\<open>/gas|petrol|...|...|.../\<close>\<close>
  "transport_words = alts (str (ascii ''gas''))
     [str (ascii ''petrol''), str [0x30AC, 0x30BD, 0x30EA, 0x30F3],
      str [0x30B9, 0x30BF, 0x30F3, 0x30C9], str [0x77F3, 0x6CB9]]"

definition lodging_words :: regex where
  \<comment> \<open>\<^verbatim>\<open>/hotel|...|...|inn/\<close>\<close>
  "lodging_words = alts (str (ascii ''hotel''))
     [str [0x30DB, 0x30C6, 0x30EB], str [0x65C5, 0x9928], str (ascii ''inn'')]"

definition stationery_words :: regex where
  \<comment> \<open>\<^verbatim>\<open>/stationery|book|...|...|.../\<close>\<close>
  "stationery_words = alts (str (ascii ''stationery''))
     [str (ascii ''book''), str [0x6587, 0x623F, 0x5177], str [0x672C], str [0x66F8, 0x5E97]]"

definition health_words :: regex where
  \<comment> \<open>\<^verbatim>\<open>/pharma|drug|...|...|.../\<close>\<close>
  "health_words = alts (str (ascii ''pharma''))
     [str (ascii ''drug''), str [0x533B, 0x85AC], str [0x85AC, 0x5C40],
      str [0x30C9, 0x30E9, 0x30C3, 0x30B0]]"

text \<open>
  \<^verbatim>\<open>String.prototype.toLowerCase\<close> is the Unicode lower-case mapping of the host;
  it is a parameter of the model.
\<close>

definition categorizeStore :: "(jsstring \<Rightarrow> jsstring) \<Rightarrow> jsstring \<Rightarrow> jsstring" where
  "categorizeStore toLowerCase storeName =
     (let lowerStoreName = toLowerCase storeName
      in if js_test dining_words lowerStoreName then cat_dining
         else if js_test grocery_words lowerStoreName then cat_groceries
         else if js_test transport_words lowerStoreName then cat_transport
         else if js_test lodging_words lowerStoreName then cat_lodging
         else if js_test stationery_words lowerStoreName then cat_stationery
         else if js_test health_words lowerStoreName then cat_health
         else cat_other)"

subsection \<open>parseReceiptText\<close>

record Receipt =
  id' :: jsstring
  storeName :: jsval
  date :: jsval
  amount :: jsval
  items :: "ReceiptItem list"
  taxAmount :: jsval
  paymentMethod :: jsval
  rawText :: jsstring
  category :: jsval

text \<open>
  What the analyzer takes from its host: the lower-case mapping, the current year, and
  \<^verbatim>\<open>path.basename(filePath, path.extname(filePath))\<close>.
\<close>

record Host =
  toLowerCase :: "jsstring \<Rightarrow> jsstring"
  currentYear :: nat
  fileStem :: "jsstring \<Rightarrow> jsstring"

text \<open>The sentinel U+65E5 U+4ED8 U+4E0D U+660E (hizuke fumei, date unknown).\<close>

definition unknown_date :: jsstring where
  "unknown_date = [0x65E5, 0x4ED8, 0x4E0D, 0x660E]"

text \<open>
  \<^verbatim>\<open>extractedFields[prompt.fieldName] = ...\<close> for every prompt in order, and the
  read of a property, \<^verbatim>\<open>undefined\<close> when it was never assigned.
\<close>

definition extract_fields :: "PromptTemplate list \<Rightarrow> jsstring \<Rightarrow> (jsstring \<rightharpoonup> jsval)" where
  "extract_fields prompts text =
     foldl (\<lambda>obj prompt. obj(fieldName prompt \<mapsto> extractFieldWithPrompt text prompt))
       Map.empty prompts"

definition field :: "(jsstring \<rightharpoonup> jsval) \<Rightarrow> jsstring \<Rightarrow> jsval" where
  "field obj k = (case obj k of None \<Rightarrow> Undefined | Some v \<Rightarrow> v)"

text \<open>
  \<^verbatim>\<open>categorizeStore(extractedFields.storeName || "")\<close> calls
  \<^verbatim>\<open>toLowerCase\<close> on its argument, which throws unless the argument is a string.
\<close>

definition parseReceiptText :: "Host \<Rightarrow> jsstring \<Rightarrow> jsstring \<Rightarrow> error + Receipt" where
  "parseReceiptText host text filePath =
     (let processedText = postprocessText text;
          extractedFields = extract_fields (japaneseReceiptPrompts (currentYear host)) processedText
      in case extractItems processedText of
           Inl e \<Rightarrow> Inl e
         | Inr its \<Rightarrow>
            (case js_or (field extractedFields (ascii ''storeName'')) (Str []) of
               Str s \<Rightarrow>
                 Inr \<lparr> id' = fileStem host filePath,
                       storeName = js_or (field extractedFields (ascii ''storeName'')) (Str unknown_store),
                       date = js_or (field extractedFields (ascii ''date'')) (Str unknown_date),
                       amount = js_or (field extractedFields (ascii ''amount'')) (Num 0),
                       items = its,
                       taxAmount = field extractedFields (ascii ''taxAmount''),
                       paymentMethod = field extractedFields (ascii ''paymentMethod''),
                       rawText = processedText,
                       category = Str (categorizeStore (toLowerCase host) s) \<rparr>
             | _ \<Rightarrow> Inl TypeError))"

subsection \<open>parseReceiptImage\<close>

text \<open>
  Reading the file, preprocessing and the OCR request are the host's; their outcome is
  the argument \<open>ocr\<close>: an error thrown, or \<^verbatim>\<open>result.textAnnotations\<close>, which
  may be \<^verbatim>\<open>undefined\<close> (\<open>None\<close>). An annotation's description may be missing.
  The \<^verbatim>\<open>catch\<close> block logs and throws the error again.
\<close>

record Annotation =
  description :: "jsstring option"

definition parseReceiptImage ::
  "Host \<Rightarrow> error + Annotation list option \<Rightarrow> jsstring \<Rightarrow> error + Receipt" where
  "parseReceiptImage host ocr imagePath =
     (case ocr of
        Inl e \<Rightarrow> Inl e
      | Inr detections \<Rightarrow>
          (case detections of
             None \<Rightarrow> Inl TextNotDetected
           | Some [] \<Rightarrow> Inl TextNotDetected
           | Some (d # _) \<Rightarrow>
               (let text = (case description d of None \<Rightarrow> [] | Some t \<Rightarrow> t)
                in parseReceiptText host text imagePath)))"

subsection \<open>The accounting export\<close>

text \<open>
  The accounts: U+4F1A U+8B70 U+8CBB (kaigihi), U+6D88 U+8017 U+54C1 U+8CBB (shomohinhi),
  U+65C5 U+8CBB U+4EA4 U+901A U+8CBB (ryohi kotsuhi), U+798F U+5229 U+539A U+751F U+8CBB
  (fukuri koseihi), U+96D1 U+8CBB (zappi, miscellaneous). A key outside the table reads as
  \<^verbatim>\<open>undefined\<close>; the properties an object literal inherits are not modelled.
\<close>

definition misc_account :: jsstring where "misc_account = [0x96D1, 0x8CBB]"

definition mapping :: "(jsstring \<times> jsstring) list" where
  "mapping =
     [(cat_dining, [0x4F1A, 0x8B70, 0x8CBB]),
      (cat_groceries, [0x6D88, 0x8017, 0x54C1, 0x8CBB]),
      (cat_transport, [0x65C5, 0x8CBB, 0x4EA4, 0x901A, 0x8CBB]),
      (cat_lodging, [0x65C5, 0x8CBB, 0x4EA4, 0x901A, 0x8CBB]),
      (cat_stationery, [0x6D88, 0x8017, 0x54C1, 0x8CBB]),
      (cat_health, [0x798F, 0x5229, 0x539A, 0x751F, 0x8CBB]),
      (cat_other, misc_account)]"

definition mapCategoryToAccount :: "jsstring \<Rightarrow> jsstring" where
  "mapCategoryToAccount category' =
     (case map_of mapping category' of
        None \<Rightarrow> misc_account
      | Some a \<Rightarrow> if a \<noteq> [] then a else misc_account)"

text \<open>
  \<^verbatim>\<open>Math.floor(x * 0.1)\<close>. For a number \<open>n\<close> below \<open>2^52\<close> the double
  \<open>n * 0.1\<close> lies in the same unit interval as \<open>n / 10\<close>, so the floor is
  \<open>n div 10\<close>. The interface types the amount as a number; the conversion of a string
  is not modelled.
\<close>

fun floor_tenth :: "jsval \<Rightarrow> jsval" where
  "floor_tenth (Num n) = Num (n div 10)"
| "floor_tenth Null = Num 0"
| "floor_tenth NegInfinity = NegInfinity"
| "floor_tenth _ = NaN"

text \<open>
  One row of the accounting table. Its columns, in the source's order: U+65E5 U+4ED8
  (date), U+5185 U+5BB9 (description), U+52D8 U+5B9A U+79D1 U+76EE (account), U+91D1 U+984D
  (amount), U+5099 U+8003 (note), U+7A0E U+533A U+5206 (tax classification), U+7A0E U+984D
  (tax amount). The note starts with U+9818 U+53CE U+66F8 (ryoshusho, receipt) and
  \<^verbatim>\<open>ID: \<close>; the tax classification is U+8AB2 U+7A0E (kazei, taxable).
\<close>

record AccountingRow =
  col_date :: jsval
  col_description :: jsval
  col_account :: jsstring
  col_amount :: jsval
  col_note :: jsstring
  col_tax_class :: jsstring
  col_tax_amount :: jsval

definition note_prefix :: jsstring where
  "note_prefix = [0x9818, 0x53CE, 0x66F8] @ ascii ''ID: ''"

definition taxable :: jsstring where
  "taxable = [0x8AB2, 0x7A0E]"

definition accounting_row :: "Receipt \<Rightarrow> AccountingRow" where
  "accounting_row receipt =
     \<lparr> col_date = date receipt,
       col_description = storeName receipt,
       col_account = (case js_or (category receipt) (Str cat_other) of
                        Str c \<Rightarrow> mapCategoryToAccount c
                      | _ \<Rightarrow> misc_account),
       col_amount = amount receipt,
       col_note = note_prefix @ id' receipt,
       col_tax_class = taxable,
       col_tax_amount = js_or (taxAmount receipt) (floor_tenth (amount receipt)) \<rparr>"

text \<open>
  \<^verbatim>\<open>saveAsAccountingCsv\<close> of the analyzer and \<^verbatim>\<open>exportToAccountingFormat\<close> of
  the exporter build the same rows and hand them to the CSV writer.
\<close>

definition saveAsAccountingCsv :: "Receipt list \<Rightarrow> AccountingRow list" where
  "saveAsAccountingCsv receipts = map accounting_row receipts"

definition exportToAccountingFormat :: "Receipt list \<Rightarrow> AccountingRow list" where
  "exportToAccountingFormat receipts = map accounting_row receipts"

section \<open>Notions used in the proofs\<close>

text \<open>The first replacement of \<open>postprocessText\<close>, on its own.\<close>

definition collapse :: "jsstring \<Rightarrow> jsstring" where
  "collapse t = replace_all (rplus is_space) [0x20] t"

text \<open>
  A text in which every white-space unit is a space U+0020 and no two white-space units
  are adjacent.
\<close>

fun spaced :: "jsstring \<Rightarrow> bool" where
  "spaced [] = True"
| "spaced [x] = (is_space x \<longrightarrow> x = 0x20)"
| "spaced (x # y # zs) = ((is_space x \<longrightarrow> x = 0x20 \<and> \<not> is_space y) \<and> spaced (y # zs))"

text \<open>
  What replacing every \<open>a\<close> by \<open>b\<close> does to one unit, and the twelve replacements of
  full-width digits and punctuation in the order of the source.
\<close>

definition sub :: "cu \<Rightarrow> cu \<Rightarrow> cu \<Rightarrow> cu" where
  "sub a b c = (if c = a then b else c)"

definition fold_width :: "cu \<Rightarrow> cu" where
  "fold_width c =
     sub 0xFF0E 0x2E (sub 0xFF0C 0x2C (sub 0xFF19 0x39 (sub 0xFF18 0x38 (sub 0xFF17 0x37
     (sub 0xFF16 0x36 (sub 0xFF15 0x35 (sub 0xFF14 0x34 (sub 0xFF13 0x33 (sub 0xFF12 0x32
     (sub 0xFF11 0x31 (sub 0xFF10 0x30 c)))))))))))"

text \<open>The full-width units that \<open>postprocessText\<close> replaces.\<close>

definition wide :: "cu \<Rightarrow> bool" where
  "wide c \<longleftrightarrow> (0xFF10 \<le> c \<and> c \<le> 0xFF19) \<or> c = 0xFF0C \<or> c = 0xFF0E"

section \<open>Evaluation\<close>

text \<open>The defining equations that evaluate the classes and the matcher on a concrete text.\<close>

lemmas class_defs = is_space_def is_line_terminator_def dot_def is_digit_def one_of_def lit_def
  lit_i_def canonicalize_def sep_class_def yen_class_def not_yen_digit_def digit_or_comma_def
  space_or_nl_def

lemmas engine_defs = match_here_def js_match_def js_test_def rep_splits_def str_def str_i_def
  ascii_def number_token_def end_or_yen_def

section \<open>Facts about the matcher\<close>

lemma rep_lazy_sound:
  "(w, r) \<in> set (rep_lazy p mn mx s) \<Longrightarrow>
     s = w @ r \<and> (\<forall>x\<in>set w. p x) \<and> mn \<le> length w \<and> (\<forall>m. mx = Some m \<longrightarrow> length w \<le> m)"
proof (induction s arbitrary: w mn mx)
  case Nil
  then show ?case by (auto split: if_splits)
next
  case (Cons x xs)
  from Cons.prems consider
      (empty) "mn = 0" "w = []" "r = x # xs"
    | (step) w' where "p x" "mx \<noteq> Some 0" "w = x # w'"
        "(w', r) \<in> set (rep_lazy p (mn - 1) (map_option (\<lambda>m. m - 1) mx) xs)"
    by (auto split: if_splits)
  then show ?case
  proof cases
    case empty
    then show ?thesis by simp
  next
    case step
    from Cons.IH [OF step(4)] step(1,2,3) show ?thesis
      by (cases mx) auto
  qed
qed

lemma rep_splits_sound:
  "(w, r) \<in> set (rep_splits p mn mx g s) \<Longrightarrow>
     s = w @ r \<and> (\<forall>x\<in>set w. p x) \<and> mn \<le> length w \<and> (\<forall>m. mx = Some m \<longrightarrow> length w \<le> m)"
  using rep_lazy_sound [of w r p mn mx s] by (auto simp: rep_splits_def split: if_splits)

lemma run_sound: "(w, s', c') \<in> set (run r s c) \<Longrightarrow> s = w @ s'"
proof (induction r arbitrary: w s' c' s c)
  case (Rep p mn mx g)
  then show ?case by (auto dest: rep_splits_sound)
next
  case (Seq a b)
  then show ?case by fastforce
qed (auto split: list.splits if_splits)

lemma run_Seq_iff:
  "(w, s', c') \<in> set (run (Seq a b) s c) \<longleftrightarrow>
     (\<exists>w1 s1 c1 w2. (w1, s1, c1) \<in> set (run a s c) \<and> (w2, s', c') \<in> set (run b s1 c1) \<and> w = w1 @ w2)"
  by force

lemma match_here_Some:
  "match_here r s = Some m \<Longrightarrow> m \<in> set (run r s Map.empty)"
  by (auto simp: match_here_def split: list.splits)

lemma match_here_None: "match_here r s = None \<longleftrightarrow> run r s Map.empty = []"
  by (auto simp: match_here_def split: list.splits)

lemma exec_Some:
  "exec r t = Some (w, s', c') \<Longrightarrow>
     \<exists>pre. t = pre @ w @ s' \<and> (w, s', c') \<in> set (run r (w @ s') Map.empty)"
proof (induction t)
  case Nil
  then show ?case using run_sound match_here_Some by fastforce
next
  case (Cons x xs)
  show ?case
  proof (cases "match_here r (x # xs)")
    case None
    with Cons.prems have "exec r xs = Some (w, s', c')" by simp
    from Cons.IH [OF this] obtain pre where "xs = pre @ w @ s'"
      "(w, s', c') \<in> set (run r (w @ s') Map.empty)" by blast
    then have "x # xs = (x # pre) @ w @ s'" by simp
    with \<open>(w, s', c') \<in> _\<close> show ?thesis by blast
  next
    case (Some m)
    with Cons.prems have m: "m = (w, s', c')" by simp
    from match_here_Some [OF Some] m have in_run: "(w, s', c') \<in> set (run r (x # xs) Map.empty)" by simp
    from run_sound [OF this] have "x # xs = [] @ w @ s'" by simp
    with in_run show ?thesis by (metis append_Nil)
  qed
qed

lemma exec_None_iff:
  "exec r t = None \<longleftrightarrow> (\<forall>n \<le> length t. run r (drop n t) Map.empty = [])"
proof (induction t)
  case Nil
  then show ?case by (simp add: match_here_None)
next
  case (Cons x xs)
  have "(\<forall>n \<le> length (x # xs). run r (drop n (x # xs)) Map.empty = []) \<longleftrightarrow>
        run r (x # xs) Map.empty = [] \<and> (\<forall>n \<le> length xs. run r (drop n xs) Map.empty = [])"
    (is "?L \<longleftrightarrow> ?R")
  proof
    assume l: ?L
    have "run r (drop 0 (x # xs)) Map.empty = []" using l by blast
    moreover have "\<forall>n \<le> length xs. run r (drop n xs) Map.empty = []"
    proof (intro allI impI)
      fix n assume "n \<le> length xs"
      then have "Suc n \<le> length (x # xs)" by simp
      with l have "run r (drop (Suc n) (x # xs)) Map.empty = []" by blast
      then show "run r (drop n xs) Map.empty = []" by simp
    qed
    ultimately show ?R by simp
  next
    assume r: ?R
    show ?L
    proof (intro allI impI)
      fix n assume "n \<le> length (x # xs)"
      then show "run r (drop n (x # xs)) Map.empty = []"
        using r by (cases n) auto
    qed
  qed
  moreover have "exec r (x # xs) = None \<longleftrightarrow>
      run r (x # xs) Map.empty = [] \<and> exec r xs = None"
    by (cases "match_here r (x # xs)") (auto simp: match_here_def split: list.splits)
  ultimately show ?case using Cons.IH by simp
qed

section \<open>Facts about the normalizer\<close>

lemma match_here_Chr:
  "match_here (Chr p) s = (case s of [] \<Rightarrow> None | x # xs \<Rightarrow> if p x then Some ([x], xs, Map.empty) else None)"
  by (simp add: match_here_def split: list.splits)

lemma replace_all_Chr:
  "replace_all (Chr p) [b] t = map (\<lambda>c. if p c then b else c) t"
proof (induction t)
  case Nil
  show ?case by (simp add: replace_all.simps [of _ _ "[]"] match_here_Chr)
next
  case (Cons x xs)
  then show ?case by (simp add: replace_all.simps [of _ _ "x # xs"] match_here_Chr)
qed

lemma replace_all_Chr_delete:
  "replace_all (Chr p) [] t = filter (\<lambda>c. \<not> p c) t"
proof (induction t)
  case Nil
  show ?case by (simp add: replace_all.simps [of _ _ "[]"] match_here_Chr)
next
  case (Cons x xs)
  then show ?case by (simp add: replace_all.simps [of _ _ "x # xs"] match_here_Chr)
qed

lemma rep_lazy_unbounded_empty:
  "rep_lazy p mn None s = [] \<longleftrightarrow> length (takeWhile p s) < mn"
proof (induction s arbitrary: mn)
  case Nil
  show ?case by simp
next
  case (Cons x xs)
  show ?case using Cons.IH [of "mn - 1"] by (cases mn) auto
qed

lemma rep_lazy_unbounded_last:
  "rep_lazy p mn None s \<noteq> [] \<Longrightarrow> last (rep_lazy p mn None s) = (takeWhile p s, dropWhile p s)"
proof (induction s arbitrary: mn)
  case Nil
  then show ?case by (simp split: if_splits)
next
  case (Cons x xs)
  show ?case
  proof (cases "p x")
    case True
    have ne: "rep_lazy p (mn - 1) None xs \<noteq> []"
      using Cons.prems True by (auto simp: rep_lazy_unbounded_empty split: if_splits)
    from Cons.IH [OF ne] ne True show ?thesis
      by (simp add: last_map last_append)
  next
    case False
    with Cons.prems show ?thesis by (auto split: if_splits)
  qed
qed

lemma match_here_plus:
  "match_here (rplus p) s =
     (case s of [] \<Rightarrow> None
      | x # xs \<Rightarrow> if p x then Some (takeWhile p s, dropWhile p s, Map.empty) else None)"
proof (cases s)
  case Nil
  then show ?thesis by (simp add: match_here_def rep_splits_def)
next
  case (Cons x xs)
  show ?thesis
  proof (cases "p x")
    case True
    then have ne: "rep_lazy p 1 None s \<noteq> []"
      by (simp add: rep_lazy_unbounded_empty Cons)
    then obtain y ys where rv: "rev (rep_lazy p 1 None s) = y # ys"
      by (cases "rev (rep_lazy p 1 None s)") auto
    then have "y = last (rep_lazy p 1 None s)"
      by (metis last_rev list.sel(1) ne rev_rev_ident hd_rev)
    with rep_lazy_unbounded_last [OF ne] have "y = (takeWhile p s, dropWhile p s)" by simp
    with rv True Cons show ?thesis
      by (simp add: match_here_def rep_splits_def del: rep_lazy.simps)
  next
    case False
    then have "rep_lazy p 1 None s = []"
      by (simp add: Cons)
    with False Cons show ?thesis by (simp add: match_here_def rep_splits_def del: rep_lazy.simps)
  qed
qed

lemma collapse_Nil: "collapse [] = []"
  by (simp add: collapse_def replace_all.simps [of _ _ "[]"] match_here_plus del: One_nat_def)

lemma collapse_Cons:
  "collapse (x # xs) =
     (if is_space x then 0x20 # collapse (dropWhile is_space xs) else x # collapse xs)"
proof -
  have "length (dropWhile is_space xs) < Suc (length xs)"
    by (simp add: length_dropWhile_le le_imp_less_Suc)
  then show ?thesis
    by (simp add: collapse_def replace_all.simps [of _ _ "x # xs"] match_here_plus del: One_nat_def)
qed

lemma spaced_Cons:
  "spaced (x # xs) \<longleftrightarrow>
     (is_space x \<longrightarrow> x = 0x20 \<and> (xs = [] \<or> \<not> is_space (hd xs))) \<and> spaced xs"
  by (cases xs) auto

lemma collapse_head:
  "t = [] \<or> \<not> is_space (hd t) \<Longrightarrow> collapse t = [] \<or> \<not> is_space (hd (collapse t))"
  by (cases t) (auto simp: collapse_Nil collapse_Cons)

lemma dropWhile_head: "dropWhile p xs = [] \<or> \<not> p (hd (dropWhile p xs))"
  by (metis hd_dropWhile)

lemma spaced_collapse: "spaced (collapse t)"
proof (induction t rule: length_induct)
  case (1 t)
  show ?case
  proof (cases t)
    case Nil
    then show ?thesis by (simp add: collapse_Nil)
  next
    case (Cons x xs)
    show ?thesis
    proof (cases "is_space x")
      case True
      let ?d = "dropWhile is_space xs"
      have "length ?d < length t" using Cons by (simp add: length_dropWhile_le le_imp_less_Suc)
      with 1 have "spaced (collapse ?d)" by blast
      moreover have "collapse ?d = [] \<or> \<not> is_space (hd (collapse ?d))"
        by (rule collapse_head) (rule dropWhile_head)
      ultimately show ?thesis using True Cons
        by (simp add: collapse_Cons spaced_Cons is_space_def)
    next
      case False
      have "length xs < length t" using Cons by simp
      with 1 have "spaced (collapse xs)" by blast
      with False Cons show ?thesis by (simp add: collapse_Cons spaced_Cons)
    qed
  qed
qed

lemma collapse_spaced: "spaced t \<Longrightarrow> collapse t = t"
proof (induction t)
  case Nil
  show ?case by (simp add: collapse_Nil)
next
  case (Cons x xs)
  from Cons.prems have sp: "spaced xs"
    and hd: "is_space x \<longrightarrow> x = 0x20 \<and> (xs = [] \<or> \<not> is_space (hd xs))"
    by (simp_all add: spaced_Cons)
  show ?case
  proof (cases "is_space x")
    case True
    with hd have "dropWhile is_space xs = xs" by (cases xs) auto
    with True hd Cons.IH [OF sp] show ?thesis by (simp add: collapse_Cons)
  next
    case False
    with Cons.IH [OF sp] show ?thesis by (simp add: collapse_Cons)
  qed
qed

lemma spaced_no_newline: "spaced t \<Longrightarrow> 0xA \<notin> set t"
  by (induction t rule: spaced.induct) (auto simp: is_space_def)

lemma replace_all_no_first:
  "\<forall>x\<in>set t. \<not> p x \<Longrightarrow> replace_all (Seq (Chr p) r) by t = t"
proof (induction t)
  case Nil
  show ?case by (simp add: replace_all.simps [of _ _ "[]"] match_here_def)
next
  case (Cons x xs)
  then show ?case by (simp add: replace_all.simps [of _ _ "x # xs"] match_here_def)
qed

lemma replace_all_lit: "replace_all (Chr (lit a)) [b] t = map (sub a b) t"
  by (simp add: replace_all_Chr lit_def sub_def)

lemma fold_width_maps:
  "map fold_width xs =
     map (sub 0xFF0E 0x2E) (map (sub 0xFF0C 0x2C) (map (sub 0xFF19 0x39) (map (sub 0xFF18 0x38)
     (map (sub 0xFF17 0x37) (map (sub 0xFF16 0x36) (map (sub 0xFF15 0x35) (map (sub 0xFF14 0x34)
     (map (sub 0xFF13 0x33) (map (sub 0xFF12 0x32) (map (sub 0xFF11 0x31) (map (sub 0xFF10 0x30)
       xs)))))))))))"
  by (induction xs) (simp_all add: fold_width_def)

lemma postprocessText_eq:
  "postprocessText t =
     replace_all (cat [Chr (lit 0xA), rstar is_space, Chr (lit 0xA)]) [0xA]
       (map fold_width (collapse t))"
  unfolding fold_width_maps
  by (simp add: postprocessText_def ascii_def replace_all_lit collapse_def del: One_nat_def map_map)

lemma sub_space: "\<not> is_space a \<Longrightarrow> \<not> is_space b \<Longrightarrow> is_space (sub a b c) \<longleftrightarrow> is_space c"
  by (auto simp: sub_def)

lemma sub_other: "c \<noteq> a \<Longrightarrow> sub a b c = c"
  by (simp add: sub_def)

lemma sub_same: "sub a b a = b"
  by (simp add: sub_def)

lemma fold_width_narrow:
  assumes "\<not> wide c"
  shows "fold_width c = c"
proof -
  from assms have "c \<noteq> 0xFF10" "c \<noteq> 0xFF11" "c \<noteq> 0xFF12" "c \<noteq> 0xFF13" "c \<noteq> 0xFF14"
    "c \<noteq> 0xFF15" "c \<noteq> 0xFF16" "c \<noteq> 0xFF17" "c \<noteq> 0xFF18" "c \<noteq> 0xFF19" "c \<noteq> 0xFF0C"
    "c \<noteq> 0xFF0E"
    by (auto simp: wide_def)
  then show ?thesis
    unfolding fold_width_def by (simp add: sub_other)
qed

lemma fold_width_wide:
  assumes "wide c"
  shows "(0x30 \<le> fold_width c \<and> fold_width c \<le> 0x39) \<or> fold_width c = 0x2C \<or> fold_width c = 0x2E"
proof -
  from assms have "c = 0xFF10 \<or> c = 0xFF11 \<or> c = 0xFF12 \<or> c = 0xFF13 \<or> c = 0xFF14 \<or> c = 0xFF15
     \<or> c = 0xFF16 \<or> c = 0xFF17 \<or> c = 0xFF18 \<or> c = 0xFF19 \<or> c = 0xFF0C \<or> c = 0xFF0E"
    unfolding wide_def by arith
  then show ?thesis
    by (elim disjE) (simp_all add: fold_width_def sub_def)
qed

lemma fold_width_not_wide: "\<not> wide (fold_width c)"
proof (cases "wide c")
  case False
  then show ?thesis by (simp add: fold_width_narrow)
next
  case True
  from fold_width_wide [OF this] show ?thesis
    unfolding wide_def by arith
qed

lemma fold_width_space: "is_space (fold_width c) \<longleftrightarrow> is_space c"
proof (cases "wide c")
  case False
  then show ?thesis by (simp add: fold_width_narrow)
next
  case True
  from fold_width_wide [OF this] have "\<not> is_space (fold_width c)"
    unfolding is_space_def by arith
  moreover from True have "\<not> is_space c"
    unfolding is_space_def wide_def by arith
  ultimately show ?thesis by simp
qed

lemma fold_width_idem: "fold_width (fold_width c) = fold_width c"
  by (rule fold_width_narrow) (rule fold_width_not_wide)

lemma fold_width_space_char: "fold_width 0x20 = 0x20"
  by (simp add: fold_width_narrow wide_def)

lemma spaced_fold_width: "spaced t \<Longrightarrow> spaced (map fold_width t)"
  by (induction t rule: spaced.induct) (auto simp: fold_width_space fold_width_space_char)

lemma postprocessText_collapse: "postprocessText t = map fold_width (collapse t)"
proof -
  have "spaced (map fold_width (collapse t))"
    by (rule spaced_fold_width) (rule spaced_collapse)
  then have "0xA \<notin> set (map fold_width (collapse t))"
    by (rule spaced_no_newline)
  then have "\<forall>x\<in>set (map fold_width (collapse t)). \<not> lit 0xA x"
    unfolding lit_def by blast
  then show ?thesis
    by (simp add: postprocessText_eq replace_all_no_first)
qed

lemma postprocessText_spaced: "spaced (postprocessText t)"
  by (simp add: postprocessText_collapse spaced_fold_width spaced_collapse)

lemma postprocessText_idem: "postprocessText (postprocessText t) = postprocessText t"
proof -
  have "collapse (postprocessText t) = postprocessText t"
    by (rule collapse_spaced) (rule postprocessText_spaced)
  then have "postprocessText (postprocessText t) = map fold_width (postprocessText t)"
    by (simp add: postprocessText_collapse [of "postprocessText t"])
  also have "\<dots> = postprocessText t"
    by (simp add: postprocessText_collapse fold_width_idem)
  finally show ?thesis .
qed

section \<open>The claims\<close>

text \<open>
  C9. The normalizer is idempotent: for every text \<open>x\<close>, normalizing the normalized
  text gives the normalized text again.
\<close>

theorem postprocessText_idempotent:
  "postprocessText (postprocessText x) = postprocessText x"
  by (rule postprocessText_idem)

theorem postprocessText_idempotent_witness:
  "postprocessText (postprocessText [0x61, 0xA, 0xFF11, 0x20, 0x20, 0x62]) =
   postprocessText [0x61, 0xA, 0xFF11, 0x20, 0x20, 0x62]"
  by (rule postprocessText_idempotent)

end
